theory Spec2Isabelle
  imports
    Main
    "HOL-Library.Multiset"
    "HOL-Library.Char_ord"
    "HOL-Library.List_Lexorder"
    "HOL-Library.Product_Lexorder"
begin

section \<open>The store: Banco\_Dados.py\<close>

subsection \<open>Schema\<close>

text \<open>
  The three tables of \<^verbatim>\<open>criar_tabelas\<close>. Text values are character lists, compared
  character by character (SQLite's default BINARY collation); integers are Python's
  unbounded integers.

  \<^verbatim>\<open>artistas(id INTEGER PRIMARY KEY AUTOINCREMENT, nome TEXT NOT NULL UNIQUE)\<close> and
  \<^verbatim>\<open>generos\<close>, which has the same columns, hold rows of type \<open>entidade\<close>;
  \<^verbatim>\<open>musicas(id, artista_id, titulo, url UNIQUE, genero_id)\<close> holds rows of type
  \<open>linha_musica\<close>. The field \<open>id\<close> is written \<open>ent_id\<close> and \<open>mus_id\<close>.
\<close>

record entidade =
  ent_id :: int
  nome :: string

record linha_musica =
  mus_id :: int
  artista_id :: int
  titulo :: string
  url :: string
  genero_id :: int

text \<open>
  The rows of the queries \<^verbatim>\<open>SELECT m.*, a.nome as artista_nome, g.nome as genero_nome\<close>:
  the columns of the track and the two names.
\<close>

record linha_musica_nomes = linha_musica +
  artista_nome :: string
  genero_nome :: string

text \<open>
  A table is the list of its rows in insertion order and, as every table is declared
  AUTOINCREMENT, its entry in \<^verbatim>\<open>sqlite_sequence\<close>: the largest rowid the table has
  ever held.
\<close>

record 'r tabela =
  linhas :: "'r list"
  seq :: int

text \<open>
  The state behind \<^verbatim>\<open>self.conexao\<close>: the tables and the connection's
  \<^verbatim>\<open>foreign_keys\<close> setting. Every statement the class runs is followed by a commit when
  it succeeds and changes nothing when it fails, so an open transaction never holds a
  change and the committed tables are the whole state.
\<close>

record banco =
  foreign_keys :: bool
  artistas :: "entidade tabela"
  generos :: "entidade tabela"
  musicas :: "linha_musica tabela"

text \<open>
  The two kinds of \<^verbatim>\<open>sqlite3.Error\<close> the handlers tell apart: \<^verbatim>\<open>IntegrityError\<close>
  (a constraint of the schema is violated) and any other error.
\<close>

datatype sqlite_erro = IntegrityError | OperationalError

subsection \<open>Opening the database\<close>

text \<open>
  \<^verbatim>\<open>conectar\<close> calls \<^verbatim>\<open>sqlite3.connect\<close> and sets the row factory; it issues no
  \<^verbatim>\<open>PRAGMA foreign_keys = ON\<close>, so the connection keeps SQLite's default, under which
  foreign key declarations are parsed and not enforced. \<^verbatim>\<open>criar_tabelas\<close> creates the
  tables where they do not exist: on a new file all three are empty.
\<close>

definition tabela_vazia :: "'r tabela" where
  "tabela_vazia = \<lparr>linhas = [], seq = 0\<rparr>"

definition conectar :: "entidade tabela \<Rightarrow> entidade tabela \<Rightarrow> linha_musica tabela \<Rightarrow> banco" where
  "conectar a g m = \<lparr>foreign_keys = False, artistas = a, generos = g, musicas = m\<rparr>"

definition banco_novo :: banco where
  "banco_novo = conectar tabela_vazia tabela_vazia tabela_vazia"

subsection \<open>INSERT\<close>

text \<open>
  An AUTOINCREMENT table gives a new row the rowid after the largest it has ever held,
  and the statement fails with SQLITE\_FULL (an \<^verbatim>\<open>OperationalError\<close> in Python) once
  that is the largest 64-bit integer. The rowid is chosen before the constraints of
  the new row are checked.
\<close>

definition MAX_ROWID :: int where
  "MAX_ROWID = 9223372036854775807"

definition novo_rowid :: "'r tabela \<Rightarrow> sqlite_erro + int" where
  "novo_rowid t = (if MAX_ROWID \<le> seq t then Inl OperationalError else Inr (seq t + 1))"

text \<open>\<^verbatim>\<open>INSERT INTO artistas (nome) VALUES (?)\<close>, and the same on \<^verbatim>\<open>generos\<close>.\<close>

definition insere_nome :: "string \<Rightarrow> entidade tabela \<Rightarrow> sqlite_erro + int \<times> entidade tabela" where
  "insere_nome n t =
     (case novo_rowid t of
        Inl e \<Rightarrow> Inl e
      | Inr i \<Rightarrow>
          if n \<in> set (map nome (linhas t)) then Inl IntegrityError
          else Inr (i, \<lparr>linhas = linhas t @ [\<lparr>ent_id = i, nome = n\<rparr>], seq = i\<rparr>))"

text \<open>
  \<^verbatim>\<open>INSERT INTO musicas (artista_id, titulo, url, genero_id) VALUES (?, ?, ?, ?)\<close>.
  \<open>None\<close> is Python's \<^verbatim>\<open>None\<close>, bound as NULL, which the NOT NULL columns refuse.
  The foreign keys are checked only when the connection enforces them.
\<close>

definition ids :: "entidade tabela \<Rightarrow> int list" where
  "ids t = map ent_id (linhas t)"

definition insere_musica ::
  "int option \<Rightarrow> string \<Rightarrow> string \<Rightarrow> int option \<Rightarrow> banco \<Rightarrow> sqlite_erro + int \<times> banco" where
  "insere_musica a t u g bd =
     (case novo_rowid (musicas bd) of
        Inl e \<Rightarrow> Inl e
      | Inr i \<Rightarrow>
          (case (a, g) of
             (Some a', Some g') \<Rightarrow>
               if u \<in> set (map url (linhas (musicas bd))) then Inl IntegrityError
               else if foreign_keys bd \<and>
                       (a' \<notin> set (ids (artistas bd)) \<or> g' \<notin> set (ids (generos bd)))
                 then Inl IntegrityError
               else Inr (i, bd\<lparr>musicas :=
                      \<lparr>linhas = linhas (musicas bd) @
                         [\<lparr>mus_id = i, artista_id = a', titulo = t, url = u, genero_id = g'\<rparr>],
                       seq = i\<rparr>\<rparr>)
           | _ \<Rightarrow> Inl IntegrityError))"

subsection \<open>Artists and genres\<close>

text \<open>
  \<^verbatim>\<open>adicionar_artista\<close>: the insert, committed, returns \<^verbatim>\<open>lastrowid\<close>; on
  \<^verbatim>\<open>IntegrityError\<close> the handler selects the id of the row of that name and returns
  it (\<^verbatim>\<open>fetchone\<close>: the first row, \<^verbatim>\<open>None\<close> when there is none); on any other error
  it rolls back and returns \<^verbatim>\<open>None\<close>.
\<close>

definition seleciona_id_por_nome :: "string \<Rightarrow> entidade tabela \<Rightarrow> int option" where
  "seleciona_id_por_nome n t =
     (case filter (\<lambda>r. nome r = n) (linhas t) of [] \<Rightarrow> None | r # _ \<Rightarrow> Some (ent_id r))"

definition adicionar_artista :: "string \<Rightarrow> banco \<Rightarrow> int option \<times> banco" where
  "adicionar_artista n bd =
     (case insere_nome n (artistas bd) of
        Inr (i, t) \<Rightarrow> (Some i, bd\<lparr>artistas := t\<rparr>)
      | Inl IntegrityError \<Rightarrow> (seleciona_id_por_nome n (artistas bd), bd)
      | Inl OperationalError \<Rightarrow> (None, bd))"

definition adicionar_genero :: "string \<Rightarrow> banco \<Rightarrow> int option \<times> banco" where
  "adicionar_genero n bd =
     (case insere_nome n (generos bd) of
        Inr (i, t) \<Rightarrow> (Some i, bd\<lparr>generos := t\<rparr>)
      | Inl IntegrityError \<Rightarrow> (seleciona_id_por_nome n (generos bd), bd)
      | Inl OperationalError \<Rightarrow> (None, bd))"

text \<open>\<^verbatim>\<open>obter_todos_artistas\<close>, \<^verbatim>\<open>obter_todos_generos\<close>: \<^verbatim>\<open>SELECT * ... ORDER BY nome\<close>.\<close>

definition obter_todos_artistas :: "banco \<Rightarrow> entidade list" where
  "obter_todos_artistas bd = sort_key nome (linhas (artistas bd))"

definition obter_todos_generos :: "banco \<Rightarrow> entidade list" where
  "obter_todos_generos bd = sort_key nome (linhas (generos bd))"

subsection \<open>Tracks\<close>

text \<open>
  \<^verbatim>\<open>adicionar_musica\<close>: the insert, committed, returns \<^verbatim>\<open>lastrowid\<close>; both handlers
  roll back and return \<^verbatim>\<open>None\<close>.
\<close>

definition adicionar_musica ::
  "int option \<Rightarrow> string \<Rightarrow> string \<Rightarrow> int option \<Rightarrow> banco \<Rightarrow> int option \<times> banco" where
  "adicionar_musica a t u g bd =
     (case insere_musica a t u g bd of
        Inr (i, bd') \<Rightarrow> (Some i, bd')
      | Inl IntegrityError \<Rightarrow> (None, bd)
      | Inl OperationalError \<Rightarrow> (None, bd))"

text \<open>
  The join all track queries share:
  \<^verbatim>\<open>FROM musicas m JOIN artistas a ON m.artista_id = a.id JOIN generos g ON m.genero_id = g.id\<close>,
  here over the tracks \<open>ms\<close> that pass the query's WHERE clause on \<open>m\<close>.
\<close>

definition com_nomes :: "linha_musica \<Rightarrow> entidade \<Rightarrow> entidade \<Rightarrow> linha_musica_nomes" where
  "com_nomes m a g =
     \<lparr>mus_id = mus_id m, artista_id = artista_id m, titulo = titulo m, url = url m,
      genero_id = genero_id m, artista_nome = nome a, genero_nome = nome g\<rparr>"

definition juncao :: "banco \<Rightarrow> linha_musica list \<Rightarrow> linha_musica_nomes list" where
  "juncao bd ms =
     [com_nomes m a g.
        m \<leftarrow> ms,
        a \<leftarrow> linhas (artistas bd), artista_id m = ent_id a,
        g \<leftarrow> linhas (generos bd), genero_id m = ent_id g]"

definition fetchone :: "'a list \<Rightarrow> 'a option" where
  "fetchone rs = (case rs of [] \<Rightarrow> None | r # _ \<Rightarrow> Some r)"


definition obter_musica_por_url :: "string \<Rightarrow> banco \<Rightarrow> linha_musica_nomes option" where
  "obter_musica_por_url u bd =
     fetchone (juncao bd (filter (\<lambda>m. url m = u) (linhas (musicas bd))))"

text \<open>
  The listings. \<^verbatim>\<open>ORDER BY\<close> is an insertion sort on the key here; the theorems below
  use only that the result is sorted on the key and has the same rows.
\<close>

definition obter_musicas_por_artista :: "int \<Rightarrow> banco \<Rightarrow> linha_musica_nomes list" where
  "obter_musicas_por_artista i bd =
     sort_key titulo (juncao bd (filter (\<lambda>m. artista_id m = i) (linhas (musicas bd))))"

definition obter_musicas_por_genero :: "int \<Rightarrow> banco \<Rightarrow> linha_musica_nomes list" where
  "obter_musicas_por_genero i bd =
     sort_key titulo (juncao bd (filter (\<lambda>m. genero_id m = i) (linhas (musicas bd))))"

definition obter_todas_musicas :: "banco \<Rightarrow> linha_musica_nomes list" where
  "obter_todas_musicas bd =
     sort_key (\<lambda>r. (artista_nome r, titulo r)) (juncao bd (linhas (musicas bd)))"

subsection \<open>UPDATE and DELETE\<close>

text \<open>
  \<^verbatim>\<open>atualizar_musica\<close> collects one assignment per argument that is true in Python's
  sense: a string other than \<^verbatim>\<open>None\<close> and \<^verbatim>\<open>''\<close>, an integer other than
  \<^verbatim>\<open>None\<close> and \<^verbatim>\<open>0\<close>. The lists \<^verbatim>\<open>updates\<close> and \<^verbatim>\<open>params\<close> grow together; an
  \<open>atribuicao\<close> is one entry of both.
\<close>

datatype atribuicao =
  Set_titulo string | Set_url string | Set_artista_id int | Set_genero_id int

fun aplica :: "atribuicao \<Rightarrow> linha_musica \<Rightarrow> linha_musica" where
  "aplica (Set_titulo t) r = r\<lparr>titulo := t\<rparr>"
| "aplica (Set_url u) r = r\<lparr>url := u\<rparr>"
| "aplica (Set_artista_id a) r = r\<lparr>artista_id := a\<rparr>"
| "aplica (Set_genero_id g) r = r\<lparr>genero_id := g\<rparr>"

text \<open>
  \<^verbatim>\<open>UPDATE musicas SET ... WHERE id = ?\<close>. The statement fails on a row whose new url
  is the url of a row already there, and, when the connection enforces foreign keys, on
  a row whose new artist or genre id has no row behind it. It returns the number of
  rows the WHERE clause selects (\<^verbatim>\<open>rowcount\<close>).
\<close>

definition viola_update :: "banco \<Rightarrow> linha_musica \<Rightarrow> linha_musica \<Rightarrow> bool" where
  "viola_update bd r r' \<longleftrightarrow>
     (url r' \<noteq> url r \<and> url r' \<in> set (map url (linhas (musicas bd)))) \<or>
     (foreign_keys bd \<and>
       ((artista_id r' \<noteq> artista_id r \<and> artista_id r' \<notin> set (ids (artistas bd))) \<or>
        (genero_id r' \<noteq> genero_id r \<and> genero_id r' \<notin> set (ids (generos bd)))))"

definition executa_update :: "atribuicao list \<Rightarrow> int \<Rightarrow> banco \<Rightarrow> sqlite_erro + nat \<times> banco" where
  "executa_update sets i bd =
     (let alvo = filter (\<lambda>r. mus_id r = i) (linhas (musicas bd))
      in if list_ex (\<lambda>r. viola_update bd r (fold aplica sets r)) alvo then Inl IntegrityError
         else Inr (length alvo,
                bd\<lparr>musicas := (musicas bd)\<lparr>linhas :=
                  map (\<lambda>r. if mus_id r = i then fold aplica sets r else r)
                    (linhas (musicas bd))\<rparr>\<rparr>))"

definition atualizar_musica ::
  "int \<Rightarrow> string option \<Rightarrow> string option \<Rightarrow> int option \<Rightarrow> int option \<Rightarrow> banco \<Rightarrow> bool \<times> banco" where
  "atualizar_musica musica_id titulo' url' artista_id' genero_id' bd =
     (let updates = [];
          updates = (case titulo' of
                       Some t \<Rightarrow> if t \<noteq> [] then updates @ [Set_titulo t] else updates
                     | None \<Rightarrow> updates);
          updates = (case url' of
                       Some u \<Rightarrow> if u \<noteq> [] then updates @ [Set_url u] else updates
                     | None \<Rightarrow> updates);
          updates = (case artista_id' of
                       Some a \<Rightarrow> if a \<noteq> 0 then updates @ [Set_artista_id a] else updates
                     | None \<Rightarrow> updates);
          updates = (case genero_id' of
                       Some g \<Rightarrow> if g \<noteq> 0 then updates @ [Set_genero_id g] else updates
                     | None \<Rightarrow> updates)
      in if updates = [] then (False, bd)
         else (case executa_update updates musica_id bd of
                 Inr (rowcount, bd') \<Rightarrow> (0 < rowcount, bd')
               | Inl e \<Rightarrow> (False, bd)))"



subsection \<open>Search\<close>

text \<open>
  SQLite's \<^verbatim>\<open>LIKE\<close> without ESCAPE: in the pattern \<^verbatim>\<open>%\<close> matches any run of
  characters, \<^verbatim>\<open>_\<close> any one character, and every other character itself, the ASCII
  letters without regard to case.
\<close>

definition minuscula :: "char \<Rightarrow> char" where
  "minuscula c =
     (if CHR ''A'' \<le> c \<and> c \<le> CHR ''Z'' then char_of (of_char c + (32::nat)) else c)"



text \<open>\<^verbatim>\<open>obter_estatisticas\<close>: the three counts.\<close>

record estatisticas =
  n_artistas :: nat
  n_generos :: nat
  n_musicas :: nat

definition obter_estatisticas :: "banco \<Rightarrow> estatisticas" where
  "obter_estatisticas bd =
     \<lparr>n_artistas = length (linhas (artistas bd)),
      n_generos = length (linhas (generos bd)),
      n_musicas = length (linhas (musicas bd))\<rparr>"

subsection \<open>What the schema keeps\<close>

text \<open>
  The constraints of the schema that SQLite enforces on every connection: primary keys
  and the UNIQUE columns are free of duplicates, and no rowid exceeds the table's
  sequence.
\<close>

definition tabela_ok :: "('r \<Rightarrow> int) \<Rightarrow> 'r tabela \<Rightarrow> bool" where
  "tabela_ok chave t \<longleftrightarrow>
     distinct (map chave (linhas t)) \<and> list_all (\<lambda>r. chave r \<le> seq t) (linhas t)"

definition bd_ok :: "banco \<Rightarrow> bool" where
  "bd_ok bd \<longleftrightarrow>
     tabela_ok ent_id (artistas bd) \<and> distinct (map nome (linhas (artistas bd))) \<and>
     tabela_ok ent_id (generos bd) \<and> distinct (map nome (linhas (generos bd))) \<and>
     tabela_ok mus_id (musicas bd) \<and> distinct (map url (linhas (musicas bd)))"

text \<open>
  The foreign keys of \<^verbatim>\<open>musicas\<close>, which the schema declares: every track's artist
  and genre exist.
\<close>

definition refs_ok :: "banco \<Rightarrow> bool" where
  "refs_ok bd \<longleftrightarrow>
     list_all (\<lambda>m. artista_id m \<in> set (ids (artistas bd)) \<and>
                   genero_id m \<in> set (ids (generos bd))) (linhas (musicas bd))"

section \<open>The catalogue and the player: main.py, tocador.py\<close>

subsection \<open>CatalogoMusical\<close>

text \<open>
  The dataclass \<^verbatim>\<open>Musica\<close>. Its \<^verbatim>\<open>id\<close>, \<^verbatim>\<open>artista_id\<close> and \<^verbatim>\<open>genero_id\<close> hold
  whatever the store returned, \<^verbatim>\<open>None\<close> included. \<^verbatim>\<open>Artista\<close> and \<^verbatim>\<open>Genero\<close> have
  the fields of \<open>entidade\<close>.
\<close>

record Musica =
  musica_id :: "int option"
  musica_titulo :: string
  musica_url :: string
  musica_artista_id :: "int option"
  musica_genero_id :: "int option"
  musica_artista_nome :: "string option"
  musica_genero_nome :: "string option"

record CatalogoMusical =
  db :: banco
  cat_musicas :: "Musica list"
  cat_artistas :: "entidade list"
  cat_generos :: "entidade list"


definition CatalogoMusical_adicionar_musica ::
  "string \<Rightarrow> string \<Rightarrow> string \<Rightarrow> string \<Rightarrow> CatalogoMusical \<Rightarrow> Musica \<times> CatalogoMusical" where
  "CatalogoMusical_adicionar_musica titulo' url' artista genero c =
     (let (artista_id', bd1) = adicionar_artista artista (db c);
          (genero_id', bd2) = adicionar_genero genero bd1;
          (musica_id', bd3) = adicionar_musica artista_id' titulo' url' genero_id' bd2;
          musica = \<lparr>musica_id = musica_id', musica_titulo = titulo', musica_url = url',
                    musica_artista_id = artista_id', musica_genero_id = genero_id',
                    musica_artista_nome = Some artista, musica_genero_nome = Some genero\<rparr>
      in (musica, c\<lparr>db := bd3, cat_musicas := cat_musicas c @ [musica]\<rparr>))"

definition Musica_de_linha :: "linha_musica_nomes \<Rightarrow> Musica" where
  "Musica_de_linha m =
     \<lparr>musica_id = Some (mus_id m), musica_titulo = titulo m, musica_url = url m,
      musica_artista_id = Some (artista_id m), musica_genero_id = Some (genero_id m),
      musica_artista_nome = Some (artista_nome m), musica_genero_nome = Some (genero_nome m)\<rparr>"

definition CatalogoMusical_buscar_musicas :: "CatalogoMusical \<Rightarrow> Musica list" where
  "CatalogoMusical_buscar_musicas c = map Musica_de_linha (obter_todas_musicas (db c))"

definition buscar_por_artista :: "int \<Rightarrow> CatalogoMusical \<Rightarrow> Musica list" where
  "buscar_por_artista i c = map Musica_de_linha (obter_musicas_por_artista i (db c))"

definition buscar_por_genero :: "int \<Rightarrow> CatalogoMusical \<Rightarrow> Musica list" where
  "buscar_por_genero i c = map Musica_de_linha (obter_musicas_por_genero i (db c))"

subsection \<open>tocador.tocar\<close>

text \<open>
  What the program does to the outside is a list of events: a line printed, or a call of
  \<^verbatim>\<open>subprocess.run\<close> with its command. How the command ends is the environment's
  answer, a parameter of the model: it returns, it exits with a non-zero status (the
  exception's text and the captured error output are the environment's too), or the
  executable is missing.
\<close>

datatype excecao = TypeError

datatype evento = Imprime string | Executa "string list" | Imprime_erro excecao

datatype resultado_processo = Sucesso | CalledProcessError string string | FileNotFoundError

fun str_nat :: "nat \<Rightarrow> string" where
  "str_nat n =
     (if n < 10 then [char_of (48 + n)] else str_nat (n div 10) @ [char_of (48 + n mod 10)])"

declare str_nat.simps [simp del]

definition str_int :: "int \<Rightarrow> string" where
  "str_int i = (if i < 0 then CHR ''-'' # str_nat (nat (- i)) else str_nat (nat i))"

definition comando :: "string \<Rightarrow> bool \<Rightarrow> int \<Rightarrow> string list" where
  "comando link video' volume' =
     (let imagem = (if video' then [] else ''--no-video'')
      in [''mpv'', imagem, ''--volume='' @ str_int volume', link])"

definition tocar :: "string \<Rightarrow> bool \<Rightarrow> int \<Rightarrow> (string list \<Rightarrow> resultado_processo) \<Rightarrow> evento list" where
  "tocar link video' volume' mpv =
     (let command = comando link video' volume'
      in Executa command #
         (case mpv command of
            Sucesso \<Rightarrow> []
          | CalledProcessError e stderr \<Rightarrow>
              [Imprime (''Erro ao executar comando: '' @ e),
               Imprime (''Sa'' @ [CHR 0xC3, CHR 0xAD] @ ''da de erro: '' @ stderr)]
          | FileNotFoundError \<Rightarrow>
              [Imprime (''Comando mpv n'' @ [CHR 0xC3, CHR 0xA3] @ ''o encontrado. Verifique se est''
                 @ [CHR 0xC3, CHR 0xA1] @ '' instalado.'')]))"

definition Musica_tocar ::
  "Musica \<Rightarrow> bool \<Rightarrow> int \<Rightarrow> (string list \<Rightarrow> resultado_processo) \<Rightarrow> evento list" where
  "Musica_tocar m video' volume' mpv =
     Imprime (''Tocando: '' @ musica_titulo m) # tocar (musica_url m) video' volume' mpv"

definition Musica_str :: "Musica \<Rightarrow> string" where
  "Musica_str m =
     (case musica_artista_nome m of None \<Rightarrow> [] | Some n \<Rightarrow> n) @ '' - '' @ musica_titulo m"

subsection \<open>Player\<close>

record Player =
  video :: bool
  volume :: int
  playlist_atual :: "Musica list"


definition criar_playlist :: "Player \<Rightarrow> Musica list \<Rightarrow> Player" where
  "criar_playlist p ms = p\<lparr>playlist_atual := ms\<rparr>"

definition exibir_playlist :: "Player \<Rightarrow> evento list" where
  "exibir_playlist p =
     Imprime ([CHR 0x0A] @ ''===--- Playlist ---==='' @ [CHR 0x0A]) #
     map (\<lambda>(i, m). Imprime (''['' @ str_nat i @ ''] '' @ Musica_str m))
       (zip [1 ..< Suc (length (playlist_atual p))] (playlist_atual p))"

definition tocar_playlist :: "Player \<Rightarrow> (string list \<Rightarrow> resultado_processo) \<Rightarrow> evento list" where
  "tocar_playlist p mpv =
     (if playlist_atual p = [] then [Imprime ''Playlist vazia!'']
      else exibir_playlist p @
           concat (map (\<lambda>m. Musica_tocar m (video p) (volume p) mpv) (playlist_atual p)))"

text \<open>
  \<^verbatim>\<open>random.shuffle\<close>: for \<open>i\<close> from the last index down to 1, the element at \<open>i\<close>
  changes places with the one at a random index \<open>j \<le> i\<close>. The random draws are a
  parameter: \<open>g n\<close> stands for the draw \<^verbatim>\<open>randbelow(n)\<close>, taken below \<open>n\<close>.
\<close>

definition randbelow :: "(nat \<Rightarrow> nat) \<Rightarrow> nat \<Rightarrow> nat" where
  "randbelow g n = g n mod n"

fun shuffle_de :: "(nat \<Rightarrow> nat) \<Rightarrow> nat \<Rightarrow> 'a list \<Rightarrow> 'a list" where
  "shuffle_de g 0 x = x"
| "shuffle_de g (Suc k) x =
     (let i = Suc k; j = randbelow g (i + 1)
      in shuffle_de g k (x[i := x ! j, j := x ! i]))"

definition shuffle :: "(nat \<Rightarrow> nat) \<Rightarrow> 'a list \<Rightarrow> 'a list" where
  "shuffle g x = shuffle_de g (length x - 1) x"

text \<open>
  \<^verbatim>\<open>tocar_musicas\<close> shuffles the caller's list itself, so the result holds the list as
  the caller sees it afterwards, beside the player and the events.
\<close>

definition tocar_musicas ::
  "Player \<Rightarrow> Musica list \<Rightarrow> bool \<Rightarrow> (nat \<Rightarrow> nat) \<Rightarrow> (string list \<Rightarrow> resultado_processo) \<Rightarrow>
     Player \<times> Musica list \<times> evento list" where
  "tocar_musicas p musicas' aleatorio g mpv =
     (let musicas' = (if aleatorio then shuffle g musicas' else musicas');
          p = criar_playlist p musicas'
      in (p, musicas', tocar_playlist p mpv))"

subsection \<open>ServicoMusical and the menu\<close>

text \<open>
  A Python call binds its positional arguments to the parameters of the \<^verbatim>\<open>def\<close> and
  raises \<^verbatim>\<open>TypeError\<close>, before the body runs, when their numbers differ.
  \<^verbatim>\<open>Player.tocar_musicas(self, musicas, aleatorio)\<close> is called with the list of tracks
  and the arguments that follow it; \<^verbatim>\<open>ServicoMusical.tocar_todas(self)\<close> with the
  arguments of its call.
\<close>

record ServicoMusical =
  catalogo :: CatalogoMusical
  player :: Player

definition Player_tocar_musicas_chamada ::
  "Player \<Rightarrow> Musica list \<Rightarrow> bool list \<Rightarrow> (nat \<Rightarrow> nat) \<Rightarrow> (string list \<Rightarrow> resultado_processo) \<Rightarrow>
     excecao + Player \<times> Musica list \<times> evento list" where
  "Player_tocar_musicas_chamada p musicas' resto g mpv =
     (case resto of
        [aleatorio] \<Rightarrow> Inr (tocar_musicas p musicas' aleatorio g mpv)
      | _ \<Rightarrow> Inl TypeError)"

definition tocar_todas ::
  "ServicoMusical \<Rightarrow> bool list \<Rightarrow> (nat \<Rightarrow> nat) \<Rightarrow> (string list \<Rightarrow> resultado_processo) \<Rightarrow>
     excecao + ServicoMusical \<times> evento list" where
  "tocar_todas s args g mpv =
     (case args of
        [] \<Rightarrow>
          (let musicas' = CatalogoMusical_buscar_musicas (catalogo s)
           in case Player_tocar_musicas_chamada (player s) musicas' [] g mpv of
                Inl e \<Rightarrow> Inl e
              | Inr (p, ms, eventos) \<Rightarrow> Inr (s\<lparr>player := p\<rparr>, eventos))
      | _ \<Rightarrow> Inl TypeError)"

definition tocar_por_artista ::
  "ServicoMusical \<Rightarrow> int \<Rightarrow> bool \<Rightarrow> (nat \<Rightarrow> nat) \<Rightarrow> (string list \<Rightarrow> resultado_processo) \<Rightarrow>
     excecao + ServicoMusical \<times> evento list" where
  "tocar_por_artista s i aleatorio g mpv =
     (let musicas' = buscar_por_artista i (catalogo s)
      in case Player_tocar_musicas_chamada (player s) musicas' [aleatorio] g mpv of
           Inl e \<Rightarrow> Inl e
         | Inr (p, ms, eventos) \<Rightarrow> Inr (s\<lparr>player := p\<rparr>, eventos))"

text \<open>
  Option 3 of \<^verbatim>\<open>InterfaceUsuario.executar\<close>, after the shuffle prompt has set
  \<^verbatim>\<open>modo_aleatorio\<close>: the call \<^verbatim>\<open>self.servico.tocar_todas(self.modo_aleatorio)\<close>
  inside the loop's \<^verbatim>\<open>except Exception\<close>, which prints the exception.
\<close>

definition opcao_3 ::
  "ServicoMusical \<Rightarrow> bool \<Rightarrow> (nat \<Rightarrow> nat) \<Rightarrow> (string list \<Rightarrow> resultado_processo) \<Rightarrow>
     ServicoMusical \<times> evento list" where
  "opcao_3 s modo_aleatorio g mpv =
     (case tocar_todas s [modo_aleatorio] g mpv of
        Inl e \<Rightarrow> (s, [Imprime_erro e])
      | Inr (s', eventos) \<Rightarrow> (s', eventos))"

text \<open>The calls of \<^verbatim>\<open>subprocess.run\<close> among the events.\<close>

fun execucoes :: "evento list \<Rightarrow> string list list" where
  "execucoes [] = []"
| "execucoes (Executa c # es) = c # execucoes es"
| "execucoes (e # es) = execucoes es"

section \<open>Notions the properties are stated with\<close>

text \<open>
  The values Python takes as false where \<^verbatim>\<open>atualizar_musica\<close> tests an argument:
  \<^verbatim>\<open>None\<close> and the empty string, \<^verbatim>\<open>None\<close> and 0.
\<close>

definition falso_str :: "string option \<Rightarrow> bool" where
  "falso_str s \<longleftrightarrow> s = None \<or> s = Some []"

definition falso_int :: "int option \<Rightarrow> bool" where
  "falso_int i \<longleftrightarrow> i = None \<or> i = Some 0"

text \<open>The list \<^verbatim>\<open>updates\<close> that \<^verbatim>\<open>atualizar_musica\<close> builds, in closed form.\<close>

definition campos ::
  "string option \<Rightarrow> string option \<Rightarrow> int option \<Rightarrow> int option \<Rightarrow> atribuicao list" where
  "campos t u a g =
     (case t of Some t' \<Rightarrow> if t' \<noteq> [] then [Set_titulo t'] else [] | None \<Rightarrow> []) @
     (case u of Some u' \<Rightarrow> if u' \<noteq> [] then [Set_url u'] else [] | None \<Rightarrow> []) @
     (case a of Some a' \<Rightarrow> if a' \<noteq> 0 then [Set_artista_id a'] else [] | None \<Rightarrow> []) @
     (case g of Some g' \<Rightarrow> if g' \<noteq> 0 then [Set_genero_id g'] else [] | None \<Rightarrow> [])"

fun preenchida :: "atribuicao \<Rightarrow> bool" where
  "preenchida (Set_titulo t) = (t \<noteq> [])"
| "preenchida (Set_url u) = (u \<noteq> [])"
| "preenchida (Set_artista_id a) = (a \<noteq> 0)"
| "preenchida (Set_genero_id g) = (g \<noteq> 0)"

text \<open>
  \<open>nao_esvazia r r'\<close>: the row \<open>r'\<close> is the row \<open>r\<close> after some change that emptied
  none of its fields; a title or url that is empty in \<open>r'\<close> was empty in \<open>r\<close>, an
  artist or genre id that is 0 in \<open>r'\<close> was 0 in \<open>r\<close>.
\<close>

definition nao_esvazia :: "linha_musica \<Rightarrow> linha_musica \<Rightarrow> bool" where
  "nao_esvazia r r' \<longleftrightarrow>
     mus_id r' = mus_id r \<and>
     (titulo r' = [] \<longrightarrow> titulo r = []) \<and> (url r' = [] \<longrightarrow> url r = []) \<and>
     (artista_id r' = 0 \<longrightarrow> artista_id r = 0) \<and> (genero_id r' = 0 \<longrightarrow> genero_id r = 0)"



text \<open>
  Containment without regard to the case of ASCII letters, as the specification words
  the search: \<open>prefixo_ci t s\<close> when \<open>s\<close> starts with \<open>t\<close>, \<open>contem_ci t s\<close> when
  \<open>t\<close> occurs somewhere in \<open>s\<close>. A term is \<open>sem_curinga\<close> when it has neither of the
  two characters that \<^verbatim>\<open>LIKE\<close> reads as wildcards.
\<close>

fun prefixo_ci :: "string \<Rightarrow> string \<Rightarrow> bool" where
  "prefixo_ci [] s = True"
| "prefixo_ci (p # ps) [] = False"
| "prefixo_ci (p # ps) (c # s) = (minuscula p = minuscula c \<and> prefixo_ci ps s)"

fun contem_ci :: "string \<Rightarrow> string \<Rightarrow> bool" where
  "contem_ci t [] = prefixo_ci t []"
| "contem_ci t (c # s) = (prefixo_ci t (c # s) \<or> contem_ci t s)"


section \<open>Example states\<close>

text \<open>
  A small catalogue: two artists, one genre, three tracks. It serves as the concrete
  state at which the theorems below are applied.
\<close>

definition bd_exemplo :: banco where
  "bd_exemplo =
     conectar
       \<lparr>linhas = [\<lparr>ent_id = 1, nome = ''Abba''\<rparr>, \<lparr>ent_id = 2, nome = ''Ghi''\<rparr>], seq = 2\<rparr>
       \<lparr>linhas = [\<lparr>ent_id = 1, nome = ''Pop''\<rparr>], seq = 1\<rparr>
       \<lparr>linhas =
          [\<lparr>mus_id = 1, artista_id = 2, titulo = ''Abba Tribute'', url = ''u1'', genero_id = 1\<rparr>,
           \<lparr>mus_id = 2, artista_id = 1, titulo = ''Waterloo'', url = ''u2'', genero_id = 1\<rparr>,
           \<lparr>mus_id = 3, artista_id = 2, titulo = ''Cde'', url = ''u3'', genero_id = 1\<rparr>],
        seq = 3\<rparr>"



section \<open>Properties of the store\<close>

subsection \<open>Auxiliary facts\<close>



lemma bd_exemplo_ok: "bd_ok bd_exemplo"
  by (simp add: bd_ok_def tabela_ok_def bd_exemplo_def conectar_def)

subsection \<open>Deleting a track\<close>







subsection \<open>Foreign keys\<close>

text \<open>
  Claim C1 says that a track whose artist or genre id has no row is refused. On the
  connection the program opens, the insert goes through: in a new database, where no
  artist and no genre exists, \<^verbatim>\<open>adicionar_musica(99, 't', 'u', 99)\<close> returns the id 1
  and the row is stored.
\<close>

theorem adicionar_musica_aceita_id_solto:
  "adicionar_musica (Some 99) ''t'' ''u'' (Some 99) banco_novo =
     (Some 1,
      banco_novo\<lparr>musicas :=
        \<lparr>linhas = [\<lparr>mus_id = 1, artista_id = 99, titulo = ''t'', url = ''u'', genero_id = 99\<rparr>],
         seq = 1\<rparr>\<rparr>)"
  by (simp add: adicionar_musica_def insere_musica_def novo_rowid_def MAX_ROWID_def
      banco_novo_def conectar_def tabela_vazia_def)

subsection \<open>Updating a track\<close>

lemma atualizar_musica_campos:
  "atualizar_musica i t u a g bd =
     (if campos t u a g = [] then (False, bd)
      else (case executa_update (campos t u a g) i bd of
              Inr (rowcount, bd') \<Rightarrow> (0 < rowcount, bd')
            | Inl e \<Rightarrow> (False, bd)))"
  by (cases t; cases u; cases a; cases g) (simp_all add: atualizar_musica_def campos_def)

lemma campos_preenchidas: "list_all preenchida (campos t u a g)"
  by (auto simp: campos_def split: option.splits)

lemma campos_Nil:
  "campos t u a g = [] \<longleftrightarrow> falso_str t \<and> falso_str u \<and> falso_int a \<and> falso_int g"
  by (auto simp: campos_def falso_str_def falso_int_def split: option.splits)

lemma campos_so_titulo:
  assumes "t \<noteq> []" "falso_str u" "falso_int a" "falso_int g"
  shows "campos (Some t) u a g = [Set_titulo t]"
  using assms by (auto simp: campos_def falso_str_def falso_int_def)

lemma nao_esvazia_refl: "nao_esvazia r r"
  by (simp add: nao_esvazia_def)

lemma nao_esvazia_aplica: "preenchida s \<Longrightarrow> nao_esvazia r r' \<Longrightarrow> nao_esvazia r (aplica s r')"
  by (cases s) (simp_all add: nao_esvazia_def)

lemma nao_esvazia_fold:
  "list_all preenchida sets \<Longrightarrow> nao_esvazia r r' \<Longrightarrow> nao_esvazia r (fold aplica sets r')"
  by (induction sets arbitrary: r') (simp_all add: nao_esvazia_aplica)

lemma executa_update_linhas:
  assumes "executa_update sets i bd = Inr (n, bd')"
  shows "bd' = bd\<lparr>musicas := (musicas bd)\<lparr>linhas :=
           map (\<lambda>r. if mus_id r = i then fold aplica sets r else r) (linhas (musicas bd))\<rparr>\<rparr>"
  using assms by (auto simp: executa_update_def Let_def split: if_splits)

lemma executa_update_nao_esvazia:
  assumes "list_all preenchida sets" and "executa_update sets i bd = Inr (n, bd')"
  shows "list_all2 nao_esvazia (linhas (musicas bd)) (linhas (musicas bd'))"
proof -
  have "nao_esvazia r (if mus_id r = i then fold aplica sets r else r)" for r
    using assms(1) by (simp add: nao_esvazia_fold nao_esvazia_refl)
  then show ?thesis
    by (simp add: executa_update_linhas [OF assms(2)] list_all2_map2 list_all2_same)
qed

lemma atualizar_musica_nao_esvazia:
  "list_all2 nao_esvazia (linhas (musicas bd))
     (linhas (musicas (snd (atualizar_musica i t u a g bd))))"
proof (cases "campos t u a g = []")
  case True
  then show ?thesis by (simp add: atualizar_musica_campos list_all2_same nao_esvazia_refl)
next
  case False
  show ?thesis
  proof (cases "executa_update (campos t u a g) i bd")
    case (Inl e)
    with False show ?thesis
      by (simp add: atualizar_musica_campos list_all2_same nao_esvazia_refl)
  next
    case (Inr nb)
    obtain n bd' where "nb = (n, bd')" by (cases nb)
    with Inr False executa_update_nao_esvazia [OF campos_preenchidas, of t u a g i bd n bd']
    show ?thesis by (simp add: atualizar_musica_campos)
  qed
qed

text \<open>
  Claim C5. When every argument of \<^verbatim>\<open>atualizar_musica\<close> is absent or false in
  Python's sense (\<^verbatim>\<open>None\<close>, the empty string, 0), the call returns \<^verbatim>\<open>False\<close> and the
  database is as it was. And whatever the arguments, the rows of \<^verbatim>\<open>musicas\<close> after
  the call are the rows before it, one by one, with no field emptied: no call sets a
  title or url to the empty string, or an artist or genre id to 0.
\<close>

theorem atualizar_musica_sem_campos:
  "(falso_str t \<and> falso_str u \<and> falso_int a \<and> falso_int g \<longrightarrow>
      atualizar_musica i t u a g bd = (False, bd)) \<and>
   list_all2 nao_esvazia (linhas (musicas bd))
     (linhas (musicas (snd (atualizar_musica i t u a g bd))))"
  using atualizar_musica_nao_esvazia [of bd i t u a g]
  by (simp add: atualizar_musica_campos campos_Nil)

theorem atualizar_musica_sem_campos_witness:
  "atualizar_musica 1 (Some []) None (Some 0) None bd_exemplo = (False, bd_exemplo) \<and>
   map titulo (linhas (musicas (snd (atualizar_musica 1 (Some []) (Some ''u9'') None None bd_exemplo))))
     = [''Abba Tribute'', ''Waterloo'', ''Cde''] \<and>
   map url (linhas (musicas (snd (atualizar_musica 1 (Some []) (Some ''u9'') None None bd_exemplo))))
     = [''u9'', ''u2'', ''u3'']"
  using atualizar_musica_sem_campos [of "Some []" None "Some 0" None 1 bd_exemplo]
  by (simp add: falso_str_def falso_int_def)
     (simp add: atualizar_musica_def executa_update_def viola_update_def bd_exemplo_def
       conectar_def)

text \<open>
  Claim C6. For the id of a stored track and a title \<open>t\<close> that is not empty,
  \<^verbatim>\<open>atualizar_musica(id, titulo=t)\<close>, the other arguments absent or false, returns
  \<^verbatim>\<open>True\<close>; afterwards the row of that id has the title \<open>t\<close> and its other fields as
  before, every other row of \<^verbatim>\<open>musicas\<close> is as before, and so are the tables of
  artists and genres.
\<close>

theorem atualizar_musica_so_titulo:
  assumes "t \<noteq> []" and "falso_str u" and "falso_int a" and "falso_int g"
    and "i \<in> set (map mus_id (linhas (musicas bd)))"
  shows "atualizar_musica i (Some t) u a g bd =
     (True, bd\<lparr>musicas := (musicas bd)\<lparr>linhas :=
        map (\<lambda>r. if mus_id r = i then r\<lparr>titulo := t\<rparr> else r) (linhas (musicas bd))\<rparr>\<rparr>)"
proof -
  have c: "campos (Some t) u a g = [Set_titulo t]"
    using assms(1-4) by (rule campos_so_titulo)
  have "\<not> list_ex (\<lambda>r. viola_update bd r (fold aplica [Set_titulo t] r))
           (filter (\<lambda>r. mus_id r = i) (linhas (musicas bd)))"
    by (simp add: list_ex_iff viola_update_def)
  moreover from assms(5) have "filter (\<lambda>r. mus_id r = i) (linhas (musicas bd)) \<noteq> []"
    by (auto simp: filter_empty_conv)
  ultimately show ?thesis
    by (simp add: atualizar_musica_campos c executa_update_def Let_def)
qed

theorem atualizar_musica_so_titulo_witness:
  "atualizar_musica 3 (Some ''Novo'') None None None bd_exemplo =
     (True, bd_exemplo\<lparr>musicas :=
        \<lparr>linhas =
          [\<lparr>mus_id = 1, artista_id = 2, titulo = ''Abba Tribute'', url = ''u1'', genero_id = 1\<rparr>,
           \<lparr>mus_id = 2, artista_id = 1, titulo = ''Waterloo'', url = ''u2'', genero_id = 1\<rparr>,
           \<lparr>mus_id = 3, artista_id = 2, titulo = ''Novo'', url = ''u3'', genero_id = 1\<rparr>],
         seq = 3\<rparr>\<rparr>)"
  using atualizar_musica_so_titulo [of "''Novo''" None None None 3 bd_exemplo]
  by (simp add: falso_str_def falso_int_def bd_exemplo_def conectar_def)

subsection \<open>The constraints of the schema are kept\<close>

lemma insere_nome_Inr:
  assumes "insere_nome n t = Inr (i, t')"
  shows "i = seq t + 1 \<and> seq t < MAX_ROWID \<and> n \<notin> set (map nome (linhas t)) \<and>
         t' = \<lparr>linhas = linhas t @ [\<lparr>ent_id = i, nome = n\<rparr>], seq = i\<rparr>"
  using assms by (auto simp: insere_nome_def novo_rowid_def split: if_splits)

lemma insere_nome_livre:
  assumes "seq t < MAX_ROWID" and "n \<notin> set (map nome (linhas t))"
  shows "insere_nome n t =
           Inr (seq t + 1, \<lparr>linhas = linhas t @ [\<lparr>ent_id = seq t + 1, nome = n\<rparr>], seq = seq t + 1\<rparr>)"
  using assms by (simp add: insere_nome_def novo_rowid_def)

lemma insere_nome_repetido:
  assumes "seq t < MAX_ROWID" and "n \<in> set (map nome (linhas t))"
  shows "insere_nome n t = Inl IntegrityError"
  using assms by (simp add: insere_nome_def novo_rowid_def)





lemma insere_musica_Inr:
  assumes "insere_musica a t u g bd = Inr (i, bd')"
  shows "\<exists>a' g'. a = Some a' \<and> g = Some g' \<and> i = seq (musicas bd) + 1 \<and>
           u \<notin> set (map url (linhas (musicas bd))) \<and>
           (foreign_keys bd \<longrightarrow> a' \<in> set (ids (artistas bd)) \<and> g' \<in> set (ids (generos bd))) \<and>
           bd' = bd\<lparr>musicas := \<lparr>linhas = linhas (musicas bd) @
                   [\<lparr>mus_id = i, artista_id = a', titulo = t, url = u, genero_id = g'\<rparr>],
                 seq = seq (musicas bd) + 1\<rparr>\<rparr>"
  using assms
  by (cases a; cases g)
     (auto simp: insere_musica_def novo_rowid_def split: if_splits)

lemma adicionar_musica_casos:
  "adicionar_musica a t u g bd = (None, bd) \<or>
   (\<exists>i bd'. insere_musica a t u g bd = Inr (i, bd') \<and> adicionar_musica a t u g bd = (Some i, bd'))"
proof (cases "insere_musica a t u g bd")
  case (Inl e)
  then show ?thesis by (cases e) (simp_all add: adicionar_musica_def)
next
  case (Inr ib)
  then show ?thesis by (cases ib) (simp add: adicionar_musica_def)
qed








subsection \<open>Get-or-create\<close>

lemma seleciona_unico:
  assumes "distinct (map nome xs)" and "r \<in> set xs"
  shows "filter (\<lambda>x. nome x = nome r) xs = [r]"
  using assms
proof (induction xs)
  case Nil
  then show ?case by simp
next
  case (Cons x xs)
  show ?case
  proof (cases "x = r")
    case True
    with Cons.prems have "nome r \<notin> nome ` set xs" by simp
    then have "\<forall>x\<in>set xs. nome x \<noteq> nome r" by (metis imageI)
    then have "filter (\<lambda>x. nome x = nome r) xs = []"
      by (simp add: filter_empty_conv)
    with True show ?thesis by simp
  next
    case False
    with Cons.prems have "r \<in> set xs" "nome x \<noteq> nome r" by force+
    with Cons show ?thesis by simp
  qed
qed

lemma get_or_create:
  assumes "distinct (map nome (linhas t))" and "seq t + 1 < MAX_ROWID"
  shows "\<exists>i t'. (insere_nome n t = Inr (i, t') \<or>
                  insere_nome n t = Inl IntegrityError \<and> t' = t \<and>
                  seleciona_id_por_nome n t = Some i) \<and>
            insere_nome n t' = Inl IntegrityError \<and> seleciona_id_por_nome n t' = Some i \<and>
            filter (\<lambda>r. nome r = n) (linhas t') = [\<lparr>ent_id = i, nome = n\<rparr>]"
proof (cases "n \<in> set (map nome (linhas t))")
  case True
  then obtain r where r: "r \<in> set (linhas t)" "nome r = n" by auto
  from seleciona_unico [OF assms(1) r(1)] r(2)
  have f: "filter (\<lambda>x. nome x = n) (linhas t) = [r]" by simp
  have "r = \<lparr>ent_id = ent_id r, nome = n\<rparr>" using r(2) by simp
  with f have "filter (\<lambda>x. nome x = n) (linhas t) = [\<lparr>ent_id = ent_id r, nome = n\<rparr>]" by simp
  moreover from f have "seleciona_id_por_nome n t = Some (ent_id r)"
    by (simp add: seleciona_id_por_nome_def)
  moreover from assms(2) have "seq t < MAX_ROWID" by simp
  note insere_nome_repetido [OF this True]
  ultimately show ?thesis by blast
next
  case False
  let ?i = "seq t + 1"
  let ?t = "\<lparr>linhas = linhas t @ [\<lparr>ent_id = ?i, nome = n\<rparr>], seq = ?i\<rparr>"
  from assms(2) have "seq t < MAX_ROWID" by simp
  from insere_nome_livre [OF this] False have ins: "insere_nome n t = Inr (?i, ?t)" by simp
  from False have "filter (\<lambda>x. nome x = n) (linhas t) = []"
    by (auto simp: filter_empty_conv)
  then have f: "filter (\<lambda>x. nome x = n) (linhas ?t) = [\<lparr>ent_id = ?i, nome = n\<rparr>]" by simp
  then have s: "seleciona_id_por_nome n ?t = Some ?i"
    by (simp add: seleciona_id_por_nome_def)
  have "seq ?t < MAX_ROWID" "n \<in> set (map nome (linhas ?t))" using assms(2) by simp_all
  then have "insere_nome n ?t = Inl IntegrityError" by (rule insere_nome_repetido)
  with ins f s show ?thesis by blast
qed

lemma adicionar_artista_duas_vezes:
  assumes "bd_ok bd" and "seq (artistas bd) + 1 < MAX_ROWID"
  shows "\<exists>i bd'. adicionar_artista n bd = (Some i, bd') \<and>
                  adicionar_artista n bd' = (Some i, bd') \<and>
                  filter (\<lambda>r. nome r = n) (linhas (artistas bd')) = [\<lparr>ent_id = i, nome = n\<rparr>]"
proof -
  from assms(1) have "distinct (map nome (linhas (artistas bd)))" by (simp add: bd_ok_def)
  from get_or_create [OF this assms(2), of n] obtain i t' where
    c: "insere_nome n (artistas bd) = Inr (i, t') \<or>
        insere_nome n (artistas bd) = Inl IntegrityError \<and> t' = artistas bd \<and>
        seleciona_id_por_nome n (artistas bd) = Some i"
    and r: "insere_nome n t' = Inl IntegrityError" "seleciona_id_por_nome n t' = Some i"
    and f: "filter (\<lambda>r. nome r = n) (linhas t') = [\<lparr>ent_id = i, nome = n\<rparr>]"
    by blast
  have 1: "adicionar_artista n bd = (Some i, bd\<lparr>artistas := t'\<rparr>)"
    using c by (auto simp: adicionar_artista_def)
  have 2: "adicionar_artista n (bd\<lparr>artistas := t'\<rparr>) = (Some i, bd\<lparr>artistas := t'\<rparr>)"
    using r by (simp add: adicionar_artista_def)
  from 1 2 f show ?thesis by simp
qed

lemma adicionar_genero_duas_vezes:
  assumes "bd_ok bd" and "seq (generos bd) + 1 < MAX_ROWID"
  shows "\<exists>i bd'. adicionar_genero n bd = (Some i, bd') \<and>
                  adicionar_genero n bd' = (Some i, bd') \<and>
                  filter (\<lambda>r. nome r = n) (linhas (generos bd')) = [\<lparr>ent_id = i, nome = n\<rparr>]"
proof -
  from assms(1) have "distinct (map nome (linhas (generos bd)))" by (simp add: bd_ok_def)
  from get_or_create [OF this assms(2), of n] obtain i t' where
    c: "insere_nome n (generos bd) = Inr (i, t') \<or>
        insere_nome n (generos bd) = Inl IntegrityError \<and> t' = generos bd \<and>
        seleciona_id_por_nome n (generos bd) = Some i"
    and r: "insere_nome n t' = Inl IntegrityError" "seleciona_id_por_nome n t' = Some i"
    and f: "filter (\<lambda>r. nome r = n) (linhas t') = [\<lparr>ent_id = i, nome = n\<rparr>]"
    by blast
  have 1: "adicionar_genero n bd = (Some i, bd\<lparr>generos := t'\<rparr>)"
    using c by (auto simp: adicionar_genero_def)
  have 2: "adicionar_genero n (bd\<lparr>generos := t'\<rparr>) = (Some i, bd\<lparr>generos := t'\<rparr>)"
    using r by (simp add: adicionar_genero_def)
  from 1 2 f show ?thesis by simp
qed

text \<open>
  Claim C2. In a database that satisfies the schema's constraints and whose artist
  table can still take two rowids, \<^verbatim>\<open>adicionar_artista(n)\<close> called twice returns the
  same id both times, the second call changes nothing, and afterwards exactly one row
  of \<^verbatim>\<open>artistas\<close> has the name \<open>n\<close>: the row with that id. The same holds for
  \<^verbatim>\<open>adicionar_genero\<close> on \<^verbatim>\<open>generos\<close>.
\<close>

theorem adicionar_artista_get_or_create:
  assumes "bd_ok bd" and "seq (artistas bd) + 1 < MAX_ROWID" and "seq (generos bd) + 1 < MAX_ROWID"
  shows "(\<exists>i bd'. adicionar_artista n bd = (Some i, bd') \<and>
                  adicionar_artista n bd' = (Some i, bd') \<and>
                  filter (\<lambda>r. nome r = n) (linhas (artistas bd')) = [\<lparr>ent_id = i, nome = n\<rparr>]) \<and>
         (\<exists>i bd'. adicionar_genero n bd = (Some i, bd') \<and>
                  adicionar_genero n bd' = (Some i, bd') \<and>
                  filter (\<lambda>r. nome r = n) (linhas (generos bd')) = [\<lparr>ent_id = i, nome = n\<rparr>])"
  using adicionar_artista_duas_vezes [OF assms(1,2)] adicionar_genero_duas_vezes [OF assms(1,3)]
  by blast

theorem adicionar_artista_get_or_create_witness:
  "(\<exists>i bd'. adicionar_artista ''Nova'' bd_exemplo = (Some i, bd') \<and>
            adicionar_artista ''Nova'' bd' = (Some i, bd') \<and>
            filter (\<lambda>r. nome r = ''Nova'') (linhas (artistas bd')) = [\<lparr>ent_id = i, nome = ''Nova''\<rparr>]) \<and>
   (\<exists>i bd'. adicionar_genero ''Nova'' bd_exemplo = (Some i, bd') \<and>
            adicionar_genero ''Nova'' bd' = (Some i, bd') \<and>
            filter (\<lambda>r. nome r = ''Nova'') (linhas (generos bd')) = [\<lparr>ent_id = i, nome = ''Nova''\<rparr>]) \<and>
   fst (adicionar_artista ''Nova'' bd_exemplo) = Some 3 \<and>
   fst (adicionar_artista ''Nova'' (snd (adicionar_artista ''Nova'' bd_exemplo))) = Some 3 \<and>
   fst (adicionar_artista ''Abba'' bd_exemplo) = Some 1"
proof -
  have "seq (artistas bd_exemplo) + 1 < MAX_ROWID" "seq (generos bd_exemplo) + 1 < MAX_ROWID"
    by (simp_all add: bd_exemplo_def conectar_def MAX_ROWID_def)
  from adicionar_artista_get_or_create [OF bd_exemplo_ok this, of "''Nova''"]
  show ?thesis
    by (simp add: adicionar_artista_def insere_nome_def novo_rowid_def MAX_ROWID_def
        seleciona_id_por_nome_def bd_exemplo_def conectar_def)
qed

subsection \<open>Unique urls\<close>




subsection \<open>Listings\<close>




lemma entidade_eta: "\<lparr>ent_id = ent_id a, nome = nome a\<rparr> = (a::entidade)"
  by (cases a) simp











lemma seleciona_id_em_ids:
  assumes "seleciona_id_por_nome n t = Some i"
  shows "i \<in> set (ids t)"
proof -
  from assms obtain r rs where f: "filter (\<lambda>r. nome r = n) (linhas t) = r # rs" and i: "i = ent_id r"
    by (auto simp: seleciona_id_por_nome_def split: list.splits)
  have "r \<in> set (filter (\<lambda>r. nome r = n) (linhas t))" unfolding f by simp
  then have "r \<in> set (linhas t)" by simp
  then show ?thesis by (simp add: ids_def i)
qed

lemma insere_nome_ids:
  assumes "insere_nome n t = Inr (i, t')"
  shows "set (ids t') = insert i (set (ids t))"
  using insere_nome_Inr [OF assms] by (auto simp: ids_def)

lemma adicionar_artista_refs:
  assumes "adicionar_artista n bd = (r, bd')"
  shows "musicas bd' = musicas bd \<and> generos bd' = generos bd \<and>
         set (ids (artistas bd)) \<subseteq> set (ids (artistas bd')) \<and>
         (\<forall>i. r = Some i \<longrightarrow> i \<in> set (ids (artistas bd')))"
proof (cases "insere_nome n (artistas bd)")
  case (Inl e)
  with assms seleciona_id_em_ids [of n "artistas bd"] show ?thesis
    by (cases e) (auto simp: adicionar_artista_def)
next
  case (Inr it)
  obtain i t' where it: "it = (i, t')" by (cases it)
  from insere_nome_ids [OF Inr [unfolded it]] assms Inr it show ?thesis
    by (auto simp: adicionar_artista_def)
qed

lemma adicionar_genero_refs:
  assumes "adicionar_genero n bd = (r, bd')"
  shows "musicas bd' = musicas bd \<and> artistas bd' = artistas bd \<and>
         set (ids (generos bd)) \<subseteq> set (ids (generos bd')) \<and>
         (\<forall>i. r = Some i \<longrightarrow> i \<in> set (ids (generos bd')))"
proof (cases "insere_nome n (generos bd)")
  case (Inl e)
  with assms seleciona_id_em_ids [of n "generos bd"] show ?thesis
    by (cases e) (auto simp: adicionar_genero_def)
next
  case (Inr it)
  obtain i t' where it: "it = (i, t')" by (cases it)
  from insere_nome_ids [OF Inr [unfolded it]] assms Inr it show ?thesis
    by (auto simp: adicionar_genero_def)
qed

lemma refs_ok_mono:
  assumes "refs_ok bd" and "musicas bd' = musicas bd"
    and "set (ids (artistas bd)) \<subseteq> set (ids (artistas bd'))"
    and "set (ids (generos bd)) \<subseteq> set (ids (generos bd'))"
  shows "refs_ok bd'"
  using assms unfolding refs_ok_def list_all_iff by auto

lemma adicionar_musica_refs:
  assumes "refs_ok bd" and "\<forall>i. a = Some i \<longrightarrow> i \<in> set (ids (artistas bd))"
    and "\<forall>i. g = Some i \<longrightarrow> i \<in> set (ids (generos bd))"
  shows "refs_ok (snd (adicionar_musica a t u g bd))"
proof -
  from adicionar_musica_casos [of a t u g bd] show ?thesis
  proof
    assume "adicionar_musica a t u g bd = (None, bd)"
    with assms(1) show ?thesis by simp
  next
    assume "\<exists>i bd'. insere_musica a t u g bd = Inr (i, bd') \<and>
              adicionar_musica a t u g bd = (Some i, bd')"
    then obtain i bd' where ins: "insere_musica a t u g bd = Inr (i, bd')"
      and ad: "adicionar_musica a t u g bd = (Some i, bd')" by blast
    from insere_musica_Inr [OF ins] obtain a' g' where
      a: "a = Some a'" and g: "g = Some g'" and
      bd': "bd' = bd\<lparr>musicas := \<lparr>linhas = linhas (musicas bd) @
                   [\<lparr>mus_id = i, artista_id = a', titulo = t, url = u, genero_id = g'\<rparr>],
                 seq = seq (musicas bd) + 1\<rparr>\<rparr>" by blast
    from assms(2,3) a g have "a' \<in> set (ids (artistas bd))" "g' \<in> set (ids (generos bd))"
      by simp_all
    with assms(1) show ?thesis by (simp add: ad bd' refs_ok_def)
  qed
qed

lemma CatalogoMusical_adicionar_musica_refs:
  assumes "refs_ok (db c)"
  shows "refs_ok (db (snd (CatalogoMusical_adicionar_musica t u a g c)))"
proof -
  obtain i1 bd1 where 1: "adicionar_artista a (db c) = (i1, bd1)" by (cases "adicionar_artista a (db c)")
  obtain i2 bd2 where 2: "adicionar_genero g bd1 = (i2, bd2)" by (cases "adicionar_genero g bd1")
  obtain i3 bd3 where 3: "adicionar_musica i1 t u i2 bd2 = (i3, bd3)"
    by (cases "adicionar_musica i1 t u i2 bd2")
  note r1 = adicionar_artista_refs [OF 1]
  note r2 = adicionar_genero_refs [OF 2]
  from r1 assms have ok1: "refs_ok bd1" by (intro refs_ok_mono [of "db c" bd1]) simp_all
  from r2 ok1 have ok2: "refs_ok bd2" by (intro refs_ok_mono [of bd1 bd2]) simp_all
  from r1 r2 have "\<forall>i. i1 = Some i \<longrightarrow> i \<in> set (ids (artistas bd2))" by simp
  moreover from r2 have "\<forall>i. i2 = Some i \<longrightarrow> i \<in> set (ids (generos bd2))" by simp
  ultimately have "refs_ok (snd (adicionar_musica i1 t u i2 bd2))"
    by (rule adicionar_musica_refs [OF ok2])
  then show ?thesis by (simp add: CatalogoMusical_adicionar_musica_def 1 2 3 Let_def)
qed

lemma listagem_sem_referencia:
  "linhas (musicas (snd (adicionar_musica (Some 99) ''t'' ''u'' (Some 99) banco_novo))) \<noteq> [] \<and>
   obter_todas_musicas (snd (adicionar_musica (Some 99) ''t'' ''u'' (Some 99) banco_novo)) = []"
  by (simp add: adicionar_musica_def insere_musica_def novo_rowid_def MAX_ROWID_def
      banco_novo_def conectar_def tabela_vazia_def obter_todas_musicas_def juncao_def)




subsection \<open>Search\<close>

lemma prefixo_ci_iff:
  "prefixo_ci t s \<longleftrightarrow> (\<exists>suf. map minuscula s = map minuscula t @ suf)"
proof (induction t s rule: prefixo_ci.induct)
  case (1 s)
  then show ?case by simp
next
  case (2 p ps)
  then show ?case by simp
next
  case (3 p ps c s)
  then show ?case by auto
qed

lemma contem_ci_iff:
  "contem_ci t s \<longleftrightarrow> (\<exists>pre suf. map minuscula s = pre @ map minuscula t @ suf)"
proof (induction s)
  case Nil
  then show ?case by (cases t) simp_all
next
  case (Cons c s)
  show ?case
  proof
    assume "contem_ci t (c # s)"
    then consider "prefixo_ci t (c # s)" | "contem_ci t s" by auto
    then show "\<exists>pre suf. map minuscula (c # s) = pre @ map minuscula t @ suf"
    proof cases
      case 1
      then obtain suf where "map minuscula (c # s) = map minuscula t @ suf"
        using prefixo_ci_iff by blast
      then have "map minuscula (c # s) = [] @ map minuscula t @ suf" by simp
      then show ?thesis by blast
    next
      case 2
      with Cons obtain pre suf where "map minuscula s = pre @ map minuscula t @ suf" by blast
      then have "map minuscula (c # s) = (minuscula c # pre) @ map minuscula t @ suf" by simp
      then show ?thesis by blast
    qed
  next
    assume "\<exists>pre suf. map minuscula (c # s) = pre @ map minuscula t @ suf"
    then obtain pre suf where e: "map minuscula (c # s) = pre @ map minuscula t @ suf" by blast
    show "contem_ci t (c # s)"
    proof (cases pre)
      case Nil
      with e have "prefixo_ci t (c # s)" using prefixo_ci_iff by auto
      then show ?thesis by simp
    next
      case (Cons x pre')
      with e have "map minuscula s = pre' @ map minuscula t @ suf" by simp
      with Cons.IH have "contem_ci t s" by blast
      then show ?thesis by simp
    qed
  qed
qed











section \<open>Properties of the player\<close>

subsection \<open>Shuffling\<close>



subsection \<open>The commands a playlist runs\<close>










subsection \<open>Playing the whole catalogue\<close>

lemma tocar_todas_TypeError: "tocar_todas s args g mpv = Inl TypeError"
  by (cases args) (simp_all add: tocar_todas_def Player_tocar_musicas_chamada_def)

text \<open>
  Claim C4. \<^verbatim>\<open>ServicoMusical.tocar_todas\<close> raises \<^verbatim>\<open>TypeError\<close> for every catalogue,
  whatever arguments it is called with: with any argument because it takes none, and
  with none because its own call of \<^verbatim>\<open>Player.tocar_musicas\<close> lacks \<^verbatim>\<open>aleatorio\<close>.
  Option 3 of the menu therefore prints the error, leaves the service as it was and
  runs nothing.
\<close>

theorem tocar_todas_nunca_toca:
  "tocar_todas s args g mpv = Inl TypeError \<and>
   opcao_3 s modo_aleatorio g mpv = (s, [Imprime_erro TypeError]) \<and>
   execucoes (snd (opcao_3 s modo_aleatorio g mpv)) = []"
  by (simp add: opcao_3_def tocar_todas_TypeError)

end
